theory Spec2Isabelle
  imports Main "HOL-Library.AList"
begin

section \<open>Values of the workflow engine\<close>

text \<open>
  The engine of \<^verbatim>\<open>WorkflowEngine\<close> works on untyped JavaScript data: workflow
  definitions, action configurations, handler results and the evaluation context.
  A value is \<open>undefined\<close>, \<open>null\<close>, a boolean, a number, a string, an array or an
  object. An object is kept as the list of its own entries in enumeration order
  (what \<^verbatim>\<open>Object.entries\<close> returns).

  Numbers: \<open>JNum n\<close> is the integer \<open>n\<close>, \<open>JNaN\<close> is NaN, and \<open>JFloat d\<close> is any
  other number (a fraction or an infinity), named by \<open>d\<close>; such a number is not zero.
  A character is one code unit in the range U+0000 to U+00FF.
\<close>

datatype jv =
    JUndefined
  | JNull
  | JBool bool
  | JNum int
  | JNaN
  | JFloat nat
  | JStr string
  | JArr "jv list"
  | JObj "(string \<times> jv) list"

text \<open>JavaScript truthiness, the test behind \<^verbatim>\<open>!x\<close>, \<^verbatim>\<open>x && y\<close> and \<^verbatim>\<open>if (x)\<close>.\<close>

fun truthy :: "jv \<Rightarrow> bool" where
  "truthy JUndefined = False"
| "truthy JNull = False"
| "truthy (JBool b) = b"
| "truthy (JNum n) = (n \<noteq> 0)"
| "truthy JNaN = False"
| "truthy (JFloat d) = True"
| "truthy (JStr s) = (s \<noteq> [])"
| "truthy (JArr xs) = True"
| "truthy (JObj kvs) = True"

text \<open>Reading a property of \<open>null\<close> or \<open>undefined\<close> raises a TypeError in JavaScript.\<close>

fun nullish :: "jv \<Rightarrow> bool" where
  "nullish JUndefined = True"
| "nullish JNull = True"
| "nullish v = False"

text \<open>\<^verbatim>\<open>typeof v === 'object' && v !== null\<close>, for data: arrays and objects.\<close>

fun is_object :: "jv \<Rightarrow> bool" where
  "is_object (JArr xs) = True"
| "is_object (JObj kvs) = True"
| "is_object v = False"

subsection \<open>Decimal text of numbers\<close>

definition digit_char :: "nat \<Rightarrow> char" where
  "digit_char d =
     (if d = 0 then CHR ''0'' else if d = 1 then CHR ''1'' else if d = 2 then CHR ''2''
      else if d = 3 then CHR ''3'' else if d = 4 then CHR ''4'' else if d = 5 then CHR ''5''
      else if d = 6 then CHR ''6'' else if d = 7 then CHR ''7'' else if d = 8 then CHR ''8''
      else CHR ''9'')"

fun dec :: "nat \<Rightarrow> string" where
  "dec n = (if n < 10 then [digit_char n] else dec (n div 10) @ [digit_char (n mod 10)])"

declare dec.simps [simp del]

definition dec_int :: "int \<Rightarrow> string" where
  "dec_int i = (if i < 0 then CHR ''-'' # dec (nat (- i)) else dec (nat i))"

fun join_comma :: "string list \<Rightarrow> string" where
  "join_comma [] = []"
| "join_comma [s] = s"
| "join_comma (s # t # ss) = s @ '','' @ join_comma (t # ss)"

subsection \<open>Own properties\<close>

text \<open>
  \<open>get_member v k\<close> is the own data property \<open>k\<close> of a value \<open>v\<close> that is neither
  \<open>null\<close> nor \<open>undefined\<close> (on those JavaScript raises, so every caller tests first):
  a key of an object, an index or the \<^verbatim>\<open>length\<close> of an array or of a string. An index
  is the canonical decimal text of a position below the length. \<open>has_own v k\<close> tells
  whether \<open>v\<close> has such a property at all.
\<close>

definition index_of :: "string \<Rightarrow> nat \<Rightarrow> nat option" where
  "index_of k n = List.find (\<lambda>i. dec i = k) [0..<n]"

fun get_member :: "jv \<Rightarrow> string \<Rightarrow> jv" where
  "get_member (JObj kvs) k = (case map_of kvs k of Some v \<Rightarrow> v | None \<Rightarrow> JUndefined)"
| "get_member (JArr xs) k =
     (if k = ''length'' then JNum (int (length xs))
      else case index_of k (length xs) of Some i \<Rightarrow> xs ! i | None \<Rightarrow> JUndefined)"
| "get_member (JStr s) k =
     (if k = ''length'' then JNum (int (length s))
      else case index_of k (length s) of Some i \<Rightarrow> JStr [s ! i] | None \<Rightarrow> JUndefined)"
| "get_member v k = JUndefined"

fun has_own :: "jv \<Rightarrow> string \<Rightarrow> bool" where
  "has_own (JObj kvs) k = (k \<in> set (map fst kvs))"
| "has_own (JArr xs) k = (k = ''length'' \<or> index_of k (length xs) \<noteq> None)"
| "has_own (JStr s) k = (k = ''length'' \<or> index_of k (length s) \<noteq> None)"
| "has_own v k = False"

section \<open>The JavaScript host\<close>

text \<open>
  What the engine takes from the language and its standard library, and what is
  therefore a parameter of everything below:
  \<^item> \<open>inherited kind k\<close>: the value of \<^verbatim>\<open>v[k]\<close> when \<open>k\<close> is not an own property of
    the data value \<open>v\<close>, found along the prototype chain of values of its kind
    (\<^verbatim>\<open>constructor\<close>, \<^verbatim>\<open>toString\<close>, \<^verbatim>\<open>__proto__\<close>, the methods of arrays,
    strings and numbers), or \<open>undefined\<close>;
  \<^item> the objects of the host themselves (functions and prototype objects), of a type
    \<open>'h\<close>: \<open>host_member h k\<close> reads a property of one, \<open>host_text h\<close> is its
    string conversion;
  \<^item> \<open>number_text\<close>: the text of a number that is not an integer of magnitude below
    \<open>10^21\<close> (those are printed in plain decimal);
  \<^item> \<open>fault_text\<close>: the message of a TypeError that the engine catches.
  A value met while a path is walked is a data value or an object of the host.
\<close>

datatype fault =
    NoPrimitiveValue
  | ReadOfNullish jv string

datatype 'h current = Data jv | Host 'h

datatype kind = ObjectKind | ArrayKind | StringKind | NumberKind | BooleanKind

fun kind_of :: "jv \<Rightarrow> kind option" where
  "kind_of (JObj kvs) = Some ObjectKind"
| "kind_of (JArr xs) = Some ArrayKind"
| "kind_of (JStr s) = Some StringKind"
| "kind_of (JNum n) = Some NumberKind"
| "kind_of JNaN = Some NumberKind"
| "kind_of (JFloat d) = Some NumberKind"
| "kind_of (JBool b) = Some BooleanKind"
| "kind_of v = None"

record 'h host =
  inherited :: "kind \<Rightarrow> string \<Rightarrow> 'h current"
  host_member :: "'h \<Rightarrow> string \<Rightarrow> 'h current"
  host_text :: "'h \<Rightarrow> fault + string"
  number_text :: "jv \<Rightarrow> string"
  fault_text :: "fault \<Rightarrow> string"

text \<open>
  \<^verbatim>\<open>v[k]\<close> for a data value \<open>v\<close>: an own property first, an inherited member
  otherwise. On \<open>null\<close> and \<open>undefined\<close>, which have no kind, JavaScript raises; the
  engine never reads from them (it tests \<^verbatim>\<open>current &&\<close> first) and the walk of the
  specification counts the segment as missing.
\<close>

definition read_member :: "'h host \<Rightarrow> jv \<Rightarrow> string \<Rightarrow> 'h current" where
  "read_member host v k =
     (if has_own v k then Data (get_member v k)
      else case kind_of v of None \<Rightarrow> Data JUndefined | Some kind \<Rightarrow> inherited host kind k)"

fun read_current :: "'h host \<Rightarrow> 'h current \<Rightarrow> string \<Rightarrow> 'h current" where
  "read_current host (Data v) k = read_member host v k"
| "read_current host (Host h) k = host_member host h k"

fun truthy_current :: "'h current \<Rightarrow> bool" where
  "truthy_current (Data v) = truthy v"
| "truthy_current (Host h) = True"

subsection \<open>String conversion\<close>

text \<open>
  \<^verbatim>\<open>String(v)\<close>, the conversion that \<^verbatim>\<open>String.prototype.replace\<close> applies to what
  its callback returns, that a template literal applies to \<^verbatim>\<open>${v}\<close> and that a
  computed key \<^verbatim>\<open>obj[v]\<close> goes through. An array is the comma-joined text of its
  elements, where \<open>null\<close> and \<open>undefined\<close> elements give the empty text
  (\<^verbatim>\<open>Array.prototype.join\<close>). A plain object is \<^verbatim>\<open>[object Object]\<close>, by the
  \<^verbatim>\<open>toString\<close> it inherits; when it has an own property \<^verbatim>\<open>toString\<close>, which in data
  is never a function, the conversion finds no primitive value and raises a TypeError.
\<close>

fun collect :: "(fault + 'a) list \<Rightarrow> fault + 'a list" where
  "collect [] = Inr []"
| "collect (Inl e # rest) = Inl e"
| "collect (Inr x # rest) = (case collect rest of Inl e \<Rightarrow> Inl e | Inr xs \<Rightarrow> Inr (x # xs))"

definition plain_decimal :: "int \<Rightarrow> bool" where
  "plain_decimal n = (\<bar>n\<bar> < 10 ^ 21)"

fun text_of :: "'h host \<Rightarrow> jv \<Rightarrow> fault + string" where
  "text_of host JUndefined = Inr ''undefined''"
| "text_of host JNull = Inr ''null''"
| "text_of host (JBool b) = Inr (if b then ''true'' else ''false'')"
| "text_of host (JNum n) = Inr (if plain_decimal n then dec_int n else number_text host (JNum n))"
| "text_of host JNaN = Inr ''NaN''"
| "text_of host (JFloat d) = Inr (number_text host (JFloat d))"
| "text_of host (JStr s) = Inr s"
| "text_of host (JArr xs) =
     (case collect (map (\<lambda>x. if nullish x then Inr [] else text_of host x) xs) of
        Inl e \<Rightarrow> Inl e
      | Inr texts \<Rightarrow> Inr (join_comma texts))"
| "text_of host (JObj kvs) =
     (if has_own (JObj kvs) ''toString'' then Inl NoPrimitiveValue else Inr ''[object Object]'')"

fun text_current :: "'h host \<Rightarrow> 'h current \<Rightarrow> fault + string" where
  "text_current host (Data v) = text_of host v"
| "text_current host (Host h) = host_text host h"

section \<open>The evaluation context\<close>

text \<open>
  The context is the one object the engine writes into. It is created by an object
  literal with the four seeded keys, so it starts with the standard prototype, and
  \<^verbatim>\<open>context[action.output] = result\<close> is an ordinary assignment: for the key
  \<^verbatim>\<open>__proto__\<close> it reaches the accessor that every object inherits, which replaces
  the prototype of the context when the value is an object or \<open>null\<close> and does
  nothing otherwise. The context therefore carries its own entries and its prototype.
\<close>

datatype proto = Standard | Replaced jv

record exec_context =
  entries :: "(string \<times> jv) list"
  proto :: proto

text \<open>
  \<^verbatim>\<open>context[k]\<close>: an own entry, or what the prototype chain gives. Behind a
  replaced prototype \<open>p\<close> the chain is \<open>p\<close> and then the standard prototype of \<open>p\<close>,
  where the accessor \<^verbatim>\<open>__proto__\<close> answers with the prototype of the object that was
  asked, which is \<open>p\<close>.
\<close>

definition ctx_read :: "'h host \<Rightarrow> exec_context \<Rightarrow> string \<Rightarrow> 'h current" where
  "ctx_read host c k =
     (case map_of (entries c) k of
        Some v \<Rightarrow> Data v
      | None \<Rightarrow>
          (case proto c of
             Standard \<Rightarrow> inherited host ObjectKind k
           | Replaced p \<Rightarrow>
               if nullish p then Data JUndefined
               else if k = ''__proto__'' \<and> \<not> has_own p k then Data p
               else read_member host p k))"

text \<open>
  \<^verbatim>\<open>context[k] = v\<close>. An own entry is overwritten in place and a new one is added at
  the end. For \<^verbatim>\<open>__proto__\<close> without an own entry, the assignment finds the inherited
  accessor, unless the chain ends before it (prototype \<open>null\<close>) or holds a data
  property of that name first; in those two cases an own entry is created.
\<close>

definition sets_prototype :: "exec_context \<Rightarrow> string \<Rightarrow> bool" where
  "sets_prototype c k =
     (k = ''__proto__'' \<and> map_of (entries c) k = None \<and>
      (case proto c of Standard \<Rightarrow> True | Replaced p \<Rightarrow> \<not> nullish p \<and> \<not> has_own p k))"

definition ctx_set :: "exec_context \<Rightarrow> string \<Rightarrow> jv \<Rightarrow> exec_context" where
  "ctx_set c k v =
     (if sets_prototype c k
      then (if is_object v \<or> v = JNull then c\<lparr>proto := Replaced v\<rparr> else c)
      else c\<lparr>entries := AList.update k v (entries c)\<rparr>)"

section \<open>Variable resolver\<close>

subsection \<open>\<^verbatim>\<open>getNestedValue\<close>\<close>

text \<open>\<^verbatim>\<open>path.split('.')\<close>: always at least one segment, empty segments are kept.\<close>

fun split_dot :: "string \<Rightarrow> string list" where
  "split_dot [] = [Nil]"
| "split_dot (c # cs) =
     (if c = CHR ''.'' then [] # split_dot cs
      else case split_dot cs of [] \<Rightarrow> [c # []] | seg # segs \<Rightarrow> (c # seg) # segs)"

text \<open>
  \<^verbatim>\<open>
  getNestedValue(obj, path) {
      return path.split('.').reduce((current, key) => {
          return current && current[key] !== undefined ? current[key] : undefined;
      }, obj);
  }
  \<close>
  The condition parses as \<^verbatim>\<open>(current && (current[key] !== undefined))\<close>. The engine
  calls it on the context only, which is an object and so truthy: the first step reads
  the context, every later step reads the value that the step before it found.
\<close>

definition nested_step :: "'h host \<Rightarrow> 'h current \<Rightarrow> string \<Rightarrow> 'h current" where
  "nested_step host cur key =
     (if truthy_current cur \<and> read_current host cur key \<noteq> Data JUndefined
      then read_current host cur key
      else Data JUndefined)"

definition getNestedValue :: "'h host \<Rightarrow> exec_context \<Rightarrow> string \<Rightarrow> 'h current" where
  "getNestedValue host obj path =
     (case split_dot path of
        [] \<Rightarrow> Data JUndefined
      | key # keys \<Rightarrow> foldl (nested_step host) (ctx_read host obj key) keys)"





subsection \<open>\<^verbatim>\<open>substituteString\<close>\<close>

text \<open>
  \<^verbatim>\<open>String.prototype.trim\<close> on code units below U+0100: tab, line feed, vertical
  tab, form feed, carriage return, space and the no-break space.
\<close>

definition is_space :: "char \<Rightarrow> bool" where
  "is_space c = (of_char c \<in> {9, 10, 11, 12, 13, 32, 160 :: nat})"

definition trim :: "string \<Rightarrow> string" where
  "trim s = rev (dropWhile is_space (rev (dropWhile is_space s)))"

text \<open>
  \<^verbatim>\<open>
  substituteString(str, context) {
      return str.replace(/\{\{([^}]+)\}\}/g, (match, path) => {
          const value = this.getNestedValue(context, path.trim());
          return value !== undefined ? value : match;
      });
  }
  \<close>
  \<open>match_here s\<close> is the match of the pattern at the start of \<open>s\<close>: two opening
  braces, the longest run of characters other than a closing brace, which must not be
  empty, and two closing braces. A shorter run cannot match, since the character after
  it is not a closing brace. The result is the captured group and the text after the
  match.
\<close>

definition match_here :: "string \<Rightarrow> (string \<times> string) option" where
  "match_here s =
     (if take 2 s = ''{{'' then
        (let p = takeWhile (\<lambda>c. c \<noteq> CHR ''}'') (drop 2 s);
             r = dropWhile (\<lambda>c. c \<noteq> CHR ''}'') (drop 2 s)
         in if p \<noteq> [] \<and> take 2 r = ''}}'' then Some (p, drop 2 r) else None)
      else None)"

text \<open>
  The callback of \<^verbatim>\<open>replace\<close>, followed by the string conversion of its result,
  which raises when the value has no primitive value.
\<close>

definition replacer :: "'h host \<Rightarrow> exec_context \<Rightarrow> string \<Rightarrow> string \<Rightarrow> fault + string" where
  "replacer host ctx match path =
     (let v = getNestedValue host ctx (trim path)
      in if v \<noteq> Data JUndefined then text_current host v else Inr match)"

lemma match_here_shorter:
  "match_here s = Some (p, r) \<Longrightarrow> length r < length s"
proof -
  assume m: "match_here s = Some (p, r)"
  then have r: "r = drop 2 (dropWhile (\<lambda>c. c \<noteq> CHR ''}'') (drop 2 s))" and s: "take 2 s = ''{{''"
    by (auto simp: match_here_def Let_def split: if_splits)
  have "length (dropWhile (\<lambda>c. c \<noteq> CHR ''}'') (drop 2 s)) \<le> length (drop 2 s)"
    by (rule length_dropWhile_le)
  moreover from s have "2 \<le> length s"
    by (cases s; cases "tl s") auto
  ultimately show ?thesis using r by simp
qed

text \<open>
  The global replace: scan from the left; at a match convert the replacement and go on
  after the match, otherwise keep the character and go on one position further. The
  first conversion that raises ends the call.
\<close>

function substituteString :: "'h host \<Rightarrow> string \<Rightarrow> exec_context \<Rightarrow> fault + string" where
  "substituteString host [] ctx = Inr []"
| "substituteString host (c # cs) ctx =
     (case match_here (c # cs) of
        Some (p, r) \<Rightarrow>
          (case replacer host ctx (''{{'' @ p @ ''}}'') p of
             Inl e \<Rightarrow> Inl e
           | Inr t \<Rightarrow>
               (case substituteString host r ctx of
                  Inl e \<Rightarrow> Inl e
                | Inr rest \<Rightarrow> Inr (t @ rest)))
      | None \<Rightarrow>
          (case substituteString host cs ctx of
             Inl e \<Rightarrow> Inl e
           | Inr rest \<Rightarrow> Inr (c # rest)))"
  by pat_completeness auto
termination
  by (relation "measure (\<lambda>(host, s, ctx). length s)") (auto dest: match_here_shorter)


subsection \<open>\<^verbatim>\<open>resolveVariables\<close>\<close>

text \<open>
  \<^verbatim>\<open>
  resolveVariables(config, context) {
      if (typeof config === 'string') return this.substituteString(config, context);
      if (Array.isArray(config))
          return config.map(item => this.resolveVariables(item, context));
      if (typeof config === 'object' && config !== null) {
          const resolved = {};
          for (const [key, value] of Object.entries(config))
              resolved[key] = this.resolveVariables(value, context);
          return resolved;
      }
      return config;
  }
  \<close>
  \<^verbatim>\<open>resolved[key] = ...\<close> on the fresh object is an ordinary assignment too: for the key
  \<^verbatim>\<open>__proto__\<close> it reaches the inherited accessor and creates no own entry. (The
  prototype that it may give to the copy is not recorded in a \<^typ>\<open>jv\<close>.)
\<close>

definition assign :: "(string \<times> jv) list \<Rightarrow> string \<times> jv \<Rightarrow> (string \<times> jv) list" where
  "assign resolved kv =
     (if fst kv = ''__proto__'' then resolved else AList.update (fst kv) (snd kv) resolved)"

definition assign_all :: "(string \<times> jv) list \<Rightarrow> (string \<times> jv) list" where
  "assign_all kvs = foldl assign [] kvs"

fun resolveVariables :: "'h host \<Rightarrow> jv \<Rightarrow> exec_context \<Rightarrow> fault + jv" where
  "resolveVariables host (JStr s) ctx =
     (case substituteString host s ctx of Inl e \<Rightarrow> Inl e | Inr t \<Rightarrow> Inr (JStr t))"
| "resolveVariables host (JArr xs) ctx =
     (case collect (map (\<lambda>item. resolveVariables host item ctx) xs) of
        Inl e \<Rightarrow> Inl e
      | Inr ys \<Rightarrow> Inr (JArr ys))"
| "resolveVariables host (JObj kvs) ctx =
     (case collect (map (\<lambda>(key, v).
              case resolveVariables host v ctx of Inl e \<Rightarrow> Inl e | Inr w \<Rightarrow> Inr (key, w)) kvs) of
        Inl e \<Rightarrow> Inl e
      | Inr rs \<Rightarrow> Inr (JObj (assign_all rs)))"
| "resolveVariables host config ctx = Inr config"



section \<open>Workflow validator\<close>

text \<open>
  \<^verbatim>\<open>
  validateWorkflow(workflow) {
      const errors = [];
      if (!workflow.id) errors.push('Workflow must have an id');
      if (!workflow.name) errors.push('Workflow must have a name');
      if (!workflow.actions || !Array.isArray(workflow.actions)) {
          errors.push('Workflow must have an actions array');
      }
      if (workflow.actions) {
          workflow.actions.forEach((action, i) => {
              if (!action.id) errors.push(`Action ${i} must have an id`);
              if (!action.type) errors.push(`Action ${i} must have a type`);
              if (!action.config) errors.push(`Action ${i} must have config`);
          });
      }
      return { valid: errors.length === 0, errors };
  }
  \<close>
  The argument is an unchecked definition, so it is a \<^typ>\<open>jv\<close>. Two places raise a
  TypeError: a property read on \<open>null\<close> or \<open>undefined\<close>, and the call of
  \<^verbatim>\<open>forEach\<close> on a truthy \<^verbatim>\<open>workflow.actions\<close> that is not an array (strings,
  numbers, booleans and plain objects have no such method). The five properties that
  are read (\<^verbatim>\<open>id\<close>, \<^verbatim>\<open>name\<close>, \<^verbatim>\<open>actions\<close>, \<^verbatim>\<open>type\<close>, \<^verbatim>\<open>config\<close>) are
  own properties wherever data has them: no prototype of the standard library has a
  member of one of these names.
\<close>

datatype js_error = TypeError

fun isArray :: "jv \<Rightarrow> bool" where
  "isArray (JArr xs) = True"
| "isArray v = False"

record validation =
  valid :: bool
  errors :: "string list"

definition action_errors :: "nat \<Rightarrow> jv \<Rightarrow> string list" where
  "action_errors i action =
     (if \<not> truthy (get_member action ''id'') then [''Action '' @ dec i @ '' must have an id''] else []) @
     (if \<not> truthy (get_member action ''type'') then [''Action '' @ dec i @ '' must have a type''] else []) @
     (if \<not> truthy (get_member action ''config'') then [''Action '' @ dec i @ '' must have config''] else [])"

text \<open>The \<^verbatim>\<open>forEach\<close> loop from position \<open>i\<close> on, pushing onto \<open>errs\<close>.\<close>

fun forEach_action :: "nat \<Rightarrow> jv list \<Rightarrow> string list \<Rightarrow> js_error + string list" where
  "forEach_action i [] errs = Inr errs"
| "forEach_action i (action # rest) errs =
     (if nullish action then Inl TypeError
      else forEach_action (Suc i) rest (errs @ action_errors i action))"

definition workflow_errors :: "jv \<Rightarrow> string list" where
  "workflow_errors workflow =
     (if \<not> truthy (get_member workflow ''id'') then [''Workflow must have an id''] else []) @
     (if \<not> truthy (get_member workflow ''name'') then [''Workflow must have a name''] else []) @
     (if \<not> truthy (get_member workflow ''actions'') \<or> \<not> isArray (get_member workflow ''actions'')
      then [''Workflow must have an actions array''] else [])"

text \<open>Every message of the loop over a whole array, positions counted from 0.\<close>

definition all_action_errors :: "jv list \<Rightarrow> string list" where
  "all_action_errors acts = concat (map (\<lambda>(i, a). action_errors i a) (List.enumerate 0 acts))"

definition result_of :: "string list \<Rightarrow> validation" where
  "result_of errs = \<lparr>valid = (length errs = 0), errors = errs\<rparr>"

definition validateWorkflow :: "jv \<Rightarrow> js_error + validation" where
  "validateWorkflow workflow =
     (if nullish workflow then Inl TypeError
      else if truthy (get_member workflow ''actions'') then
        (case get_member workflow ''actions'' of
           JArr xs \<Rightarrow>
             (case forEach_action 0 xs (workflow_errors workflow) of
                Inl e \<Rightarrow> Inl e
              | Inr errs \<Rightarrow> Inr (result_of errs))
         | _ \<Rightarrow> Inl TypeError)
      else Inr (result_of (workflow_errors workflow)))"

section \<open>Execution orchestrator\<close>

subsection \<open>Workflows, log entries and results\<close>

text \<open>
  \<^verbatim>\<open>execute\<close> assumes a workflow of the right shape: an object whose
  \<^verbatim>\<open>actions\<close> is an array of action objects. The fields themselves are arbitrary
  values; an absent field is \<^const>\<open>JUndefined\<close>.
\<close>

record action =
  a_id :: jv
  a_type :: jv
  a_config :: jv
  a_output :: jv

record workflow =
  w_id :: jv
  w_name :: jv
  w_actions :: "action list"

text \<open>
  What a \<^verbatim>\<open>catch\<close> of the engine can receive: an \<^verbatim>\<open>Error\<close> with a message (the
  engine's own \<^verbatim>\<open>Unknown action type\<close>, or one that a handler throws), any other
  value that a handler throws or rejects with, or a TypeError that the language raised.
  \<^verbatim>\<open>error.message\<close> raises in turn when the value is \<open>null\<close> or \<open>undefined\<close>.
  (No prototype of the standard library gives data a member \<^verbatim>\<open>message\<close>.)
\<close>

datatype thrown = ErrorObj string | Value jv | TypeErrorObj fault

definition message_of :: "'h host \<Rightarrow> thrown \<Rightarrow> fault + jv" where
  "message_of host e =
     (case e of
        ErrorObj m \<Rightarrow> Inr (JStr m)
      | TypeErrorObj f \<Rightarrow> Inr (JStr (fault_text host f))
      | Value v \<Rightarrow>
          if nullish v then Inl (ReadOfNullish v ''message'') else Inr (get_member v ''message''))"

text \<open>
  \<^verbatim>\<open>console.error(`... ${error.message}`)\<close>: the message is read and converted to
  text for the log line; either step can raise.
\<close>

definition logged_message :: "'h host \<Rightarrow> thrown \<Rightarrow> fault + jv" where
  "logged_message host e =
     (case message_of host e of
        Inl f \<Rightarrow> Inl f
      | Inr m \<Rightarrow> (case text_of host m of Inl f \<Rightarrow> Inl f | Inr t \<Rightarrow> Inr m))"

text \<open>
  A log entry is \<^verbatim>\<open>{step, status: 'completed', output}\<close> or
  \<^verbatim>\<open>{step, status: 'failed', error}\<close>; a key that the entry does not have is \<open>None\<close>.
\<close>

record log_entry =
  le_step :: jv
  le_status :: string
  le_output :: "jv option"
  le_error :: "jv option"

definition completed_entry :: "action \<Rightarrow> jv \<Rightarrow> log_entry" where
  "completed_entry action result =
     \<lparr>le_step = a_id action, le_status = ''completed'', le_output = Some result, le_error = None\<rparr>"

definition failed_entry :: "action \<Rightarrow> jv \<Rightarrow> log_entry" where
  "failed_entry action message =
     \<lparr>le_step = a_id action, le_status = ''failed'', le_output = None, le_error = Some message\<rparr>"

text \<open>
  What \<^verbatim>\<open>execute\<close> returns: \<^verbatim>\<open>{success: true, execution_id, log, context}\<close> or
  \<^verbatim>\<open>{success: false, execution_id, error, log}\<close>.
\<close>

record exec_result =
  success :: bool
  execution_id :: string
  r_log :: "log_entry list"
  r_context :: "exec_context option"
  r_error :: "jv option"

subsection \<open>Persistence collaborator\<close>

text \<open>
  The engine talks to \<^verbatim>\<open>Database\<close> through four calls. The collaborator is kept as
  the engine sees it: the journal of the calls made on it, in order, with the
  arguments the engine passes, and the key that \<^verbatim>\<open>createExecutionStep\<close> hands back
  (\<^verbatim>\<open>lastID\<close> of an AUTOINCREMENT column, one past the key handed out before).
  Every call succeeds; how the rows are encoded as SQL text is below this model.
\<close>

datatype db_call =
    CreateExecution string jv string jv
  | CreateExecutionStep string jv jv string jv
  | UpdateExecutionStep nat string "jv option" "jv option"
  | UpdateExecution string string "log_entry list" "jv option" string

record database =
  journal :: "db_call list"
  lastID :: nat

definition createExecution :: "string \<Rightarrow> jv \<Rightarrow> string \<Rightarrow> jv \<Rightarrow> database \<Rightarrow> database" where
  "createExecution ident workflow_id status trigger_data db =
     db\<lparr>journal := journal db @ [CreateExecution ident workflow_id status trigger_data]\<rparr>"

definition createExecutionStep ::
  "string \<Rightarrow> jv \<Rightarrow> jv \<Rightarrow> string \<Rightarrow> jv \<Rightarrow> database \<Rightarrow> nat \<times> database" where
  "createExecutionStep exec_id step_id step_type status input_data db =
     (Suc (lastID db),
      \<lparr>journal = journal db @ [CreateExecutionStep exec_id step_id step_type status input_data],
       lastID = Suc (lastID db)\<rparr>)"

definition updateExecutionStep ::
  "nat \<Rightarrow> string \<Rightarrow> jv option \<Rightarrow> jv option \<Rightarrow> database \<Rightarrow> database" where
  "updateExecutionStep stepDbId status output_data error_message db =
     db\<lparr>journal := journal db @ [UpdateExecutionStep stepDbId status output_data error_message]\<rparr>"

definition updateExecution ::
  "string \<Rightarrow> string \<Rightarrow> log_entry list \<Rightarrow> jv option \<Rightarrow> string \<Rightarrow> database \<Rightarrow> database" where
  "updateExecution ident status execution_log error_message completed_at db =
     db\<lparr>journal := journal db @ [UpdateExecution ident status execution_log error_message completed_at]\<rparr>"

subsection \<open>Action dispatch\<close>

text \<open>
  The handler library (\<^verbatim>\<open>ActionHandlers\<close>) is not part of the engine, so it is a
  parameter: \<open>getHandler\<close> maps a type tag to a handler or to nothing. A handler takes
  the resolved configuration and the state of the outside world \<open>'w\<close> it acts on; it
  returns a value or throws, and what it throws is any value at all.

  \<^verbatim>\<open>
  async executeAction(type, config) {
      const handler = this.actionHandlers.getHandler(type);
      if (!handler) throw new Error(`Unknown action type: ${type}`);
      return await handler(config);
  }
  \<close>
\<close>

type_synonym 'w handler = "jv \<Rightarrow> 'w \<Rightarrow> (thrown + jv) \<times> 'w"

definition executeAction ::
  "'h host \<Rightarrow> (jv \<Rightarrow> 'w handler option) \<Rightarrow> jv \<Rightarrow> jv \<Rightarrow> 'w \<Rightarrow> (thrown + jv) \<times> 'w" where
  "executeAction host getHandler type config w =
     (case getHandler type of
        None \<Rightarrow>
          (case text_of host type of
             Inl f \<Rightarrow> (Inl (TypeErrorObj f), w)
           | Inr t \<Rightarrow> (Inl (ErrorObj (''Unknown action type: '' @ t)), w))
      | Some handler \<Rightarrow> handler config w)"

subsection \<open>The loop over the actions\<close>

record 'w run_state =
  rs_db :: database
  rs_context :: exec_context
  rs_log :: "log_entry list"
  rs_world :: 'w

text \<open>
  The inner \<^verbatim>\<open>try\<close> block up to the write into the context: resolve the
  configuration, dispatch, and store the result under the output key. The key of
  \<^verbatim>\<open>context[action.output]\<close> is the string conversion of \<^verbatim>\<open>action.output\<close>.
  Whatever is thrown on the way goes to the inner \<^verbatim>\<open>catch\<close>.
\<close>

definition store_result :: "'h host \<Rightarrow> action \<Rightarrow> exec_context \<Rightarrow> jv \<Rightarrow> fault + exec_context" where
  "store_result host action ctx result =
     (if truthy (a_output action) then
        (case text_of host (a_output action) of
           Inl f \<Rightarrow> Inl f
         | Inr key \<Rightarrow> Inr (ctx_set ctx key result))
      else Inr ctx)"

definition try_action ::
  "'h host \<Rightarrow> (jv \<Rightarrow> 'w handler option) \<Rightarrow> action \<Rightarrow> exec_context \<Rightarrow> 'w
     \<Rightarrow> (thrown + jv \<times> exec_context) \<times> 'w" where
  "try_action host getHandler action ctx w =
     (case resolveVariables host (a_config action) ctx of
        Inl f \<Rightarrow> (Inl (TypeErrorObj f), w)
      | Inr resolvedConfig \<Rightarrow>
          (case executeAction host getHandler (a_type action) resolvedConfig w of
             (Inl e, w1) \<Rightarrow> (Inl e, w1)
           | (Inr result, w1) \<Rightarrow>
               (case store_result host action ctx result of
                  Inl f \<Rightarrow> (Inl (TypeErrorObj f), w1)
                | Inr ctx1 \<Rightarrow> (Inr (result, ctx1), w1))))"

text \<open>
  One iteration of the \<^verbatim>\<open>for\<close> loop of \<^verbatim>\<open>execute\<close>. The first component of the
  result is what the iteration throws into the outer \<^verbatim>\<open>catch\<close>, or \<open>None\<close> when it
  reaches its end. In source order:
  \<^item> the two log lines convert \<^verbatim>\<open>action.id\<close> and \<^verbatim>\<open>action.type\<close> to text, outside
    the inner \<^verbatim>\<open>try\<close>;
  \<^item> the step record is created;
  \<^item> the inner \<^verbatim>\<open>try\<close> runs; on success the step is updated and the entry pushed;
  \<^item> the inner \<^verbatim>\<open>catch\<close> first logs \<^verbatim>\<open>error.message\<close>, then updates the step,
    pushes the failed entry and throws the error again. When the log line raises,
    nothing of that is reached and the TypeError leaves the \<^verbatim>\<open>catch\<close> instead.
\<close>

definition run_action ::
  "'h host \<Rightarrow> (jv \<Rightarrow> 'w handler option) \<Rightarrow> string \<Rightarrow> action \<Rightarrow> 'w run_state
     \<Rightarrow> thrown option \<times> 'w run_state" where
  "run_action host getHandler executionId action st =
     (case text_of host (a_id action) of
        Inl f \<Rightarrow> (Some (TypeErrorObj f), st)
      | Inr id_text \<Rightarrow>
     (case text_of host (a_type action) of
        Inl f \<Rightarrow> (Some (TypeErrorObj f), st)
      | Inr type_text \<Rightarrow>
     (let (stepDbId, db1) =
            createExecutionStep executionId (a_id action) (a_type action) ''running''
              (a_config action) (rs_db st)
      in case try_action host getHandler action (rs_context st) (rs_world st) of
           (Inr (result, ctx1), w1) \<Rightarrow>
             (None,
              \<lparr>rs_db = updateExecutionStep stepDbId ''completed'' (Some result) None db1,
               rs_context = ctx1,
               rs_log = rs_log st @ [completed_entry action result],
               rs_world = w1\<rparr>)
         | (Inl e, w1) \<Rightarrow>
             (case logged_message host e of
                Inl f \<Rightarrow>
                  (Some (TypeErrorObj f),
                   \<lparr>rs_db = db1, rs_context = rs_context st, rs_log = rs_log st, rs_world = w1\<rparr>)
              | Inr message \<Rightarrow>
                  (Some e,
                   \<lparr>rs_db = updateExecutionStep stepDbId ''failed'' None (Some message) db1,
                    rs_context = rs_context st,
                    rs_log = rs_log st @ [failed_entry action message],
                    rs_world = w1\<rparr>)))))"

fun run_loop ::
  "'h host \<Rightarrow> (jv \<Rightarrow> 'w handler option) \<Rightarrow> string \<Rightarrow> action list \<Rightarrow> 'w run_state
     \<Rightarrow> thrown option \<times> 'w run_state" where
  "run_loop host getHandler executionId [] st = (None, st)"
| "run_loop host getHandler executionId (action # rest) st =
     (case run_action host getHandler executionId action st of
        (Some e, st') \<Rightarrow> (Some e, st')
      | (None, st') \<Rightarrow> run_loop host getHandler executionId rest st')"

subsection \<open>\<^verbatim>\<open>execute\<close>\<close>

text \<open>
  What \<^verbatim>\<open>execute\<close> takes from its environment: the identifier that
  \<^verbatim>\<open>uuidv4()\<close> generates and the two readings of the clock
  (\<^verbatim>\<open>new Date().toISOString()\<close>), at the start and at the end of the run.
\<close>

record exec_env =
  uuidv4 :: string
  started_at :: string
  finished_at :: string

text \<open>The default of the parameter \<^verbatim>\<open>triggerData = {}\<close> applies to \<open>undefined\<close>.\<close>

definition default_trigger :: "jv \<Rightarrow> jv" where
  "default_trigger triggerData = (if triggerData = JUndefined then JObj [] else triggerData)"

definition seed_context :: "exec_env \<Rightarrow> workflow \<Rightarrow> jv \<Rightarrow> exec_context" where
  "seed_context env workflow trigger =
     \<lparr>entries =
        [(''trigger'', trigger),
         (''workflow'', JObj [(''id'', w_id workflow), (''name'', w_name workflow)]),
         (''now'', JStr (started_at env)),
         (''executionId'', JStr (uuidv4 env))],
      proto = Standard\<rparr>"

text \<open>
  The state in which the loop starts: the run record is persisted, the context is
  seeded, the log is empty.
\<close>

definition start_run :: "exec_env \<Rightarrow> workflow \<Rightarrow> jv \<Rightarrow> database \<Rightarrow> 'w \<Rightarrow> 'w run_state" where
  "start_run env workflow triggerData db w =
     (let executionId = uuidv4 env;
          trigger = default_trigger triggerData;
          db1 = createExecution executionId (w_id workflow) ''running'' trigger db;
          ctx = seed_context env workflow trigger
      in \<lparr>rs_db = db1, rs_context = ctx, rs_log = [], rs_world = w\<rparr>)"

text \<open>
  \<^verbatim>\<open>execute\<close> itself. Before anything is persisted, the first log lines convert
  \<^verbatim>\<open>workflow.name\<close> to text, outside every \<^verbatim>\<open>try\<close>: a TypeError there is raised to
  the caller (\<open>Inl\<close>). Then the loop runs inside the outer \<^verbatim>\<open>try\<close>. The outer
  \<^verbatim>\<open>catch\<close> logs \<^verbatim>\<open>error.message\<close> (which, outside every \<^verbatim>\<open>try\<close>, would again be
  raised to the caller), persists the run as failed and returns a result.
\<close>

definition execute ::
  "'h host \<Rightarrow> (jv \<Rightarrow> 'w handler option) \<Rightarrow> exec_env \<Rightarrow> workflow \<Rightarrow> jv \<Rightarrow> database \<Rightarrow> 'w
     \<Rightarrow> fault + exec_result \<times> database \<times> 'w" where
  "execute host getHandler env workflow triggerData db w =
     (case text_of host (w_name workflow) of
        Inl f \<Rightarrow> Inl f
      | Inr name_text \<Rightarrow>
     (let executionId = uuidv4 env;
          (thrown, st) =
            run_loop host getHandler executionId (w_actions workflow)
              (start_run env workflow triggerData db w)
      in case thrown of
           None \<Rightarrow>
             Inr (\<lparr>success = True, execution_id = executionId, r_log = rs_log st,
                   r_context = Some (rs_context st), r_error = None\<rparr>,
                  updateExecution executionId ''completed'' (rs_log st) None (finished_at env)
                    (rs_db st),
                  rs_world st)
         | Some e \<Rightarrow>
             (case logged_message host e of
                Inl f \<Rightarrow> Inl f
              | Inr message \<Rightarrow>
                  Inr (\<lparr>success = False, execution_id = executionId, r_log = rs_log st,
                        r_context = None, r_error = Some message\<rparr>,
                       updateExecution executionId ''failed'' (rs_log st) (Some message)
                         (finished_at env) (rs_db st),
                       rs_world st))))"



subsection \<open>The run as the specification words it\<close>

text \<open>
  Section 4.3 of the specification, step 2, without the engine's bookkeeping, to
  compare with \<^const>\<open>execute\<close>. \<open>completes as (ctx, w) results (ctx', w')\<close>: every
  action of \<open>as\<close>, in order, is resolved against the current context and dispatched,
  its handler succeeds, and its result is written into the context under its output
  key, if it has one; \<open>results\<close> are the results, \<open>ctx'\<close> and \<open>w'\<close> the context and
  the world at the end. \<open>fails a (ctx, w) e w'\<close>: the step of action \<open>a\<close> throws \<open>e\<close>,
  in resolving, in the dispatch (a handler that throws, or no handler), or in storing
  the result. The identifier and the type of an action that runs have a string form.
\<close>

inductive completes ::
  "'h host \<Rightarrow> (jv \<Rightarrow> 'w handler option) \<Rightarrow> action list \<Rightarrow> exec_context \<times> 'w \<Rightarrow> jv list
     \<Rightarrow> exec_context \<times> 'w \<Rightarrow> bool"
  for host :: "'h host" and getHandler :: "jv \<Rightarrow> 'w handler option" where
    none: "completes host getHandler [] s [] s"
  | one: "text_of host (a_id a) = Inr id_text \<Longrightarrow>
          text_of host (a_type a) = Inr type_text \<Longrightarrow>
          resolveVariables host (a_config a) ctx = Inr config \<Longrightarrow>
          executeAction host getHandler (a_type a) config w = (Inr result, w1) \<Longrightarrow>
          store_result host a ctx result = Inr ctx1 \<Longrightarrow>
          completes host getHandler rest (ctx1, w1) results s \<Longrightarrow>
          completes host getHandler (a # rest) (ctx, w) (result # results) s"

inductive fails ::
  "'h host \<Rightarrow> (jv \<Rightarrow> 'w handler option) \<Rightarrow> action \<Rightarrow> exec_context \<times> 'w \<Rightarrow> thrown \<Rightarrow> 'w \<Rightarrow> bool"
  for host :: "'h host" and getHandler :: "jv \<Rightarrow> 'w handler option" where
    resolving: "resolveVariables host (a_config a) ctx = Inl f \<Longrightarrow>
                fails host getHandler a (ctx, w) (TypeErrorObj f) w"
  | dispatch: "resolveVariables host (a_config a) ctx = Inr config \<Longrightarrow>
               executeAction host getHandler (a_type a) config w = (Inl e, w1) \<Longrightarrow>
               fails host getHandler a (ctx, w) e w1"
  | storing: "resolveVariables host (a_config a) ctx = Inr config \<Longrightarrow>
              executeAction host getHandler (a_type a) config w = (Inr result, w1) \<Longrightarrow>
              store_result host a ctx result = Inl f \<Longrightarrow>
              fails host getHandler a (ctx, w) (TypeErrorObj f) w1"

subsection \<open>A host for the examples\<close>

text \<open>
  The theorems below hold for every host. The examples are evaluated on a fragment of
  the host of Node.js, with what they read and nothing else: a plain object inherits
  \<^verbatim>\<open>constructor\<close>, the function \<^verbatim>\<open>Object\<close>, whose \<^verbatim>\<open>name\<close> is \<^verbatim>\<open>Object\<close>; the
  number \<open>10^21\<close> prints as \<^verbatim>\<open>1e+21\<close>; and the two TypeErrors have the messages of V8.
\<close>

datatype builtin = ObjectFunction

definition example_host :: "builtin host" where
  "example_host =
     \<lparr>inherited =
        (\<lambda>kind k. if kind = ObjectKind \<and> k = ''constructor'' then Host ObjectFunction
               else Data JUndefined),
      host_member =
        (\<lambda>h k. if k = ''name'' then Data (JStr ''Object'') else Data JUndefined),
      host_text = (\<lambda>h. Inr ''function Object() { [native code] }''),
      number_text = (\<lambda>v. ''1e+21''),
      fault_text =
        (\<lambda>f. case f of
               NoPrimitiveValue \<Rightarrow> ''Cannot convert object to primitive value''
             | ReadOfNullish v k \<Rightarrow>
                 ''Cannot read properties of '' @ (if v = JNull then ''null'' else ''undefined'') @
                 '' (reading '' @ [CHR 0x27] @ k @ [CHR 0x27] @ '')'')\<rparr>"

text \<open>
  A handler library for the examples, acting on a world that counts the handler
  calls: \<^verbatim>\<open>echo\<close> returns its configuration, \<^verbatim>\<open>fail\<close> throws
  \<^verbatim>\<open>new Error('boom')\<close>, \<^verbatim>\<open>reject\<close> rejects with no reason
  (\<^verbatim>\<open>Promise.reject()\<close>), and \<^verbatim>\<open>throw_null\<close> throws \<open>null\<close>.
\<close>

definition example_handlers :: "jv \<Rightarrow> nat handler option" where
  "example_handlers type =
     (if type = JStr ''echo'' then Some (\<lambda>config w. (Inr config, Suc w))
      else if type = JStr ''fail'' then Some (\<lambda>config w. (Inl (ErrorObj ''boom''), Suc w))
      else if type = JStr ''reject'' then Some (\<lambda>config w. (Inl (Value JUndefined), Suc w))
      else if type = JStr ''throw_null'' then Some (\<lambda>config w. (Inl (Value JNull), Suc w))
      else None)"

definition example_env :: exec_env where
  "example_env = \<lparr>uuidv4 = ''run-1'', started_at = ''t0'', finished_at = ''t1''\<rparr>"

definition empty_database :: database where
  "empty_database = \<lparr>journal = [], lastID = 0\<rparr>"

section \<open>Properties of the variable resolver\<close>

subsection \<open>The walk of a path, and one occurrence of the pattern\<close>












subsection \<open>The substitution gate\<close>




subsection \<open>Text of a substituted value\<close>





subsection \<open>Resolving twice\<close>


lemma collect_Inr: "collect (map Inr xs) = Inr xs"
  by (induction xs) simp_all















section \<open>Properties of the validator\<close>

subsection \<open>Decimal text is one-to-one\<close>

lemma dec_nonempty: "dec n \<noteq> []"
  by (subst dec.simps) simp

lemma digit_char_inj: "a < 10 \<Longrightarrow> b < 10 \<Longrightarrow> digit_char a = digit_char b \<Longrightarrow> a = b"
  by (simp add: digit_char_def split: if_splits) arith

lemma dec_inj: "dec n = dec m \<Longrightarrow> n = m"
proof (induction n arbitrary: m rule: dec.induct)
  case (1 n)
  show ?case
  proof (cases "n < 10")
    case small_n: True
    show ?thesis
    proof (cases "m < 10")
      case True
      with small_n "1.prems" show ?thesis
        by (simp add: dec.simps [of n] dec.simps [of m] digit_char_inj)
    next
      case False
      with small_n "1.prems" have "[digit_char n] = dec (m div 10) @ [digit_char (m mod 10)]"
        by (simp add: dec.simps [of n] dec.simps [of m])
      then have "dec (m div 10) = []" by simp
      with dec_nonempty show ?thesis by blast
    qed
  next
    case big_n: False
    show ?thesis
    proof (cases "m < 10")
      case True
      with big_n "1.prems" have "dec (n div 10) @ [digit_char (n mod 10)] = [digit_char m]"
        by (simp add: dec.simps [of n] dec.simps [of m])
      then have "dec (n div 10) = []" by simp
      with dec_nonempty show ?thesis by blast
    next
      case False
      with big_n "1.prems" have "dec (n div 10) = dec (m div 10)"
        and d: "digit_char (n mod 10) = digit_char (m mod 10)"
        by (simp_all add: dec.simps [of n] dec.simps [of m])
      with "1.IH" big_n have "n div 10 = m div 10" by simp
      moreover from d have "n mod 10 = m mod 10" by (simp add: digit_char_inj)
      ultimately show ?thesis by (metis div_mult_mod_eq)
    qed
  qed
qed

subsection \<open>What \<^verbatim>\<open>validateWorkflow\<close> returns\<close>

lemma forEach_action_returns:
  "\<forall>a \<in> set xs. \<not> nullish a \<Longrightarrow>
   forEach_action i xs errs =
     Inr (errs @ concat (map (\<lambda>(j, a). action_errors j a) (List.enumerate i xs)))"
  by (induction xs arbitrary: i errs) simp_all

lemma forEach_action_raises:
  "\<exists>a \<in> set xs. nullish a \<Longrightarrow> forEach_action i xs errs = Inl TypeError"
  by (induction xs arbitrary: i errs) auto

lemma get_member_nullish: "nullish w \<Longrightarrow> get_member w k = JUndefined"
  by (cases w) simp_all

lemma validateWorkflow_array:
  assumes "get_member w ''actions'' = JArr acts"
  shows "validateWorkflow w =
           (if \<exists>a \<in> set acts. nullish a then Inl TypeError
            else Inr (result_of (workflow_errors w @ all_action_errors acts)))"
proof -
  from assms have "\<not> nullish w" using get_member_nullish by fastforce
  then show ?thesis
    using assms forEach_action_returns [of acts 0 "workflow_errors w"]
      forEach_action_raises [of acts 0 "workflow_errors w"]
    by (auto simp: validateWorkflow_def all_action_errors_def)
qed

lemma validateWorkflow_no_actions:
  assumes "\<not> nullish w" and "\<not> truthy (get_member w ''actions'')"
  shows "validateWorkflow w = Inr (result_of (workflow_errors w))"
  using assms by (simp add: validateWorkflow_def)

lemma validateWorkflow_valid_iff:
  "validateWorkflow w = Inr r \<Longrightarrow> valid r = (errors r = [])"
  by (auto simp: validateWorkflow_def result_of_def split: if_splits jv.splits sum.splits)

lemma suffix_id_config: "x @ '' must have config'' \<noteq> y @ '' must have an id''"
proof
  assume "x @ '' must have config'' = y @ '' must have an id''"
  then have "last (x @ '' must have config'') = last (y @ '' must have an id'')" by simp
  then show False by simp
qed

lemma suffix_type_config: "x @ '' must have config'' \<noteq> y @ '' must have a type''"
proof
  assume "x @ '' must have config'' = y @ '' must have a type''"
  then have "last (x @ '' must have config'') = last (y @ '' must have a type'')" by simp
  then show False by simp
qed

lemma config_message_action_errors:
  "(''Action '' @ dec i @ '' must have config'' \<in> set (action_errors j a)) =
     (j = i \<and> \<not> truthy (get_member a ''config''))"
  using dec_inj [of i j] by (auto simp: action_errors_def suffix_id_config suffix_type_config)

lemma config_message_workflow_errors:
  "''Action '' @ dec i @ '' must have config'' \<notin> set (workflow_errors w)"
  by (simp add: workflow_errors_def)

lemma config_message_all_action_errors:
  "(''Action '' @ dec i @ '' must have config'' \<in> set (all_action_errors acts)) =
     (i < length acts \<and> \<not> truthy (get_member (acts ! i) ''config''))"
proof -
  define m where "m = ''Action '' @ dec i @ '' must have config''"
  have key: "(m \<in> set (action_errors j a)) = (j = i \<and> \<not> truthy (get_member a ''config''))" for j a
    unfolding m_def by (rule config_message_action_errors)
  have "(m \<in> set (all_action_errors acts)) =
          (i < length acts \<and> \<not> truthy (get_member (acts ! i) ''config''))"
    by (auto simp: all_action_errors_def key in_set_enumerate_eq)
  then show ?thesis unfolding m_def .
qed

text \<open>
  The example of the specification: no id, no name and one action without a type give
  exactly three messages.
\<close>

lemma validateWorkflow_three_messages:
  "validateWorkflow (JObj [(''actions'', JArr [JObj [(''id'', JStr ''a1''), (''config'', JObj [])]])])
     = Inr \<lparr>valid = False,
            errors = [''Workflow must have an id'', ''Workflow must have a name'',
                      ''Action 0 must have a type'']\<rparr>"
  by code_simp

text \<open>
  C7: for every workflow definition, \<^verbatim>\<open>validateWorkflow\<close> collects the messages of all
  failing checks and returns them with \<open>valid\<close> true exactly when there are none. The
  code does so whenever it returns (\<open>validateWorkflow_array\<close>,
  \<open>validateWorkflow_no_actions\<close>, \<open>validateWorkflow_valid_iff\<close>), but it does not
  return for every definition. Line 218 of the source tests
  \<^verbatim>\<open>!Array.isArray(workflow.actions)\<close> and pushes the message for it, and line 222 then
  guards the loop with \<^verbatim>\<open>if (workflow.actions)\<close> alone, so a truthy value that is not an
  array reaches \<^verbatim>\<open>forEach\<close> and the call raises a TypeError. Here the definition is
  \<^verbatim>\<open>{id: "w1", name: "Flow", actions: {}}\<close>.
\<close>

theorem validateWorkflow_non_array_actions_raises:
  "validateWorkflow (JObj [(''id'', JStr ''w1''), (''name'', JStr ''Flow''), (''actions'', JObj [])])
     = Inl TypeError"
  by code_simp

text \<open>
  C8, as stated: a workflow whose action sequence is present but empty is never valid.
  The code has no check of the length: with an id and a name, the empty sequence is valid.
\<close>

theorem validateWorkflow_empty_actions_counterexample:
  "validateWorkflow (JObj [(''id'', JStr ''w1''), (''name'', JStr ''Flow''), (''actions'', JArr [])])
     = Inr \<lparr>valid = True, errors = []\<rparr>"
  by code_simp

text \<open>
  C8, amended: for a workflow whose action sequence is present but empty, the result is
  valid exactly when the id and the name are truthy, and the only possible messages are
  the two about the id and the name. The validator does not ask for a non-empty sequence.
\<close>

theorem validateWorkflow_empty_actions:
  assumes "get_member w ''actions'' = JArr []"
  shows "validateWorkflow w =
           Inr \<lparr>valid = (truthy (get_member w ''id'') \<and> truthy (get_member w ''name'')),
                errors =
                  (if truthy (get_member w ''id'') then [] else [''Workflow must have an id'']) @
                  (if truthy (get_member w ''name'') then [] else [''Workflow must have a name''])\<rparr>"
  using validateWorkflow_array [OF assms] assms
  by (simp add: result_of_def workflow_errors_def all_action_errors_def enumerate_eq_zip)

theorem validateWorkflow_empty_actions_witness:
  "get_member (JObj [(''name'', JStr ''Flow''), (''actions'', JArr [])]) ''actions'' = JArr [] \<and>
   validateWorkflow (JObj [(''name'', JStr ''Flow''), (''actions'', JArr [])])
     = Inr \<lparr>valid = False, errors = [''Workflow must have an id'']\<rparr>"
proof -
  have m: "get_member (JObj [(''name'', JStr ''Flow''), (''actions'', JArr [])]) ''actions'' = JArr []"
    by simp
  from validateWorkflow_empty_actions [OF m] m show ?thesis by simp
qed

text \<open>
  C9, as stated: the message \<^verbatim>\<open>Action i must have config\<close> is reported exactly when
  the configuration is null or absent, so \<open>false\<close>, \<open>0\<close> and the empty string count as
  present. The code tests \<^verbatim>\<open>!action.config\<close>: the three actions below have those
  three configurations, and each gets the message.
\<close>

theorem config_falsy_counterexample:
  "validateWorkflow
     (JObj [(''id'', JStr ''w1''), (''name'', JStr ''Flow''),
            (''actions'', JArr [JObj [(''id'', JStr ''a0''), (''type'', JStr ''t''), (''config'', JBool False)],
                              JObj [(''id'', JStr ''a1''), (''type'', JStr ''t''), (''config'', JNum 0)],
                              JObj [(''id'', JStr ''a2''), (''type'', JStr ''t''), (''config'', JStr [])]])])
     = Inr \<lparr>valid = False,
            errors = [''Action 0 must have config'', ''Action 1 must have config'',
                      ''Action 2 must have config'']\<rparr>"
  by code_simp

text \<open>
  C9, amended: whenever \<^verbatim>\<open>validateWorkflow\<close> returns for a workflow with an actions
  array, the message \<^verbatim>\<open>Action i must have config\<close> for a position \<open>i\<close> of the array is
  in the error list exactly when the configuration of that action is falsy:
  absent, \<open>null\<close>, \<open>false\<close>, \<open>0\<close> or the empty string. Every truthy value (an object
  or an array, also an empty one, a non-empty string, a number other than \<open>0\<close>, \<open>true\<close>)
  counts as present.
\<close>

theorem config_message_iff_falsy:
  assumes "validateWorkflow w = Inr r" and "get_member w ''actions'' = JArr acts" and "i < length acts"
  shows "(''Action '' @ dec i @ '' must have config'' \<in> set (errors r)) =
           (\<not> truthy (get_member (acts ! i) ''config''))"
proof -
  define m where "m = ''Action '' @ dec i @ '' must have config''"
  from assms(1) validateWorkflow_array [OF assms(2)]
  have "r = result_of (workflow_errors w @ all_action_errors acts)"
    by (simp split: if_splits)
  then have "set (errors r) = set (workflow_errors w) \<union> set (all_action_errors acts)"
    by (simp add: result_of_def)
  moreover have "m \<notin> set (workflow_errors w)"
    unfolding m_def by (rule config_message_workflow_errors)
  moreover have "(m \<in> set (all_action_errors acts)) = (\<not> truthy (get_member (acts ! i) ''config''))"
    unfolding m_def using assms(3) by (simp only: config_message_all_action_errors simp_thms)
  ultimately have "(m \<in> set (errors r)) = (\<not> truthy (get_member (acts ! i) ''config''))"
    by simp
  then show ?thesis unfolding m_def .
qed

theorem config_message_iff_falsy_witness:
  "validateWorkflow
     (JObj [(''id'', JStr ''w1''), (''name'', JStr ''Flow''),
            (''actions'', JArr [JObj [(''id'', JStr ''a1''), (''type'', JStr ''http''), (''config'', JObj [])],
                              JObj [(''id'', JStr ''a2''), (''type'', JStr ''log'')]])])
     = Inr \<lparr>valid = False, errors = [''Action 1 must have config'']\<rparr> \<and>
   ''Action 1 must have config'' \<in> set [''Action 1 must have config''] \<and>
   \<not> truthy (get_member (JObj [(''id'', JStr ''a2''), (''type'', JStr ''log'')]) ''config'')"
proof -
  let ?a1 = "JObj [(''id'', JStr ''a1''), (''type'', JStr ''http''), (''config'', JObj [])]"
  let ?a2 = "JObj [(''id'', JStr ''a2''), (''type'', JStr ''log'')]"
  let ?w = "JObj [(''id'', JStr ''w1''), (''name'', JStr ''Flow''), (''actions'', JArr [?a1, ?a2])]"
  have v: "validateWorkflow ?w = Inr \<lparr>valid = False, errors = [''Action 1 must have config'']\<rparr>"
    by code_simp
  have m: "get_member ?w ''actions'' = JArr [?a1, ?a2]" by simp
  have d: "dec 1 = ''1''" by code_simp
  from config_message_iff_falsy [OF v m, of 1] d
  have "\<not> truthy (get_member ?a2 ''config'')" by simp
  with v show ?thesis by simp
qed

section \<open>Properties of the orchestrator\<close>

subsection \<open>One iteration, and the loop\<close>










subsection \<open>Runs that complete and runs that abort\<close>





lemma fails_unknown_type:
  assumes "getHandler (a_type a) = None"
    and "resolveVariables host (a_config a) ctx = Inr config"
    and "text_of host (a_type a) = Inr type_text"
  shows "fails host getHandler a (ctx, w) (ErrorObj (''Unknown action type: '' @ type_text)) w"
    and "logged_message host (ErrorObj (''Unknown action type: '' @ type_text)) =
           Inr (JStr (''Unknown action type: '' @ type_text))"
proof -
  define m where "m = ''Unknown action type: '' @ type_text"
  from assms(1,3) have "executeAction host getHandler (a_type a) config w = (Inl (ErrorObj m), w)"
    by (simp add: executeAction_def m_def)
  with assms(2) have "fails host getHandler a (ctx, w) (ErrorObj m) w"
    by (rule fails.dispatch)
  then show "fails host getHandler a (ctx, w) (ErrorObj (''Unknown action type: '' @ type_text)) w"
    unfolding m_def .
  have "logged_message host (ErrorObj m) = Inr (JStr m)"
    by (simp add: logged_message_def message_of_def)
  then show "logged_message host (ErrorObj (''Unknown action type: '' @ type_text)) =
           Inr (JStr (''Unknown action type: '' @ type_text))"
    unfolding m_def .
qed

lemma fails_handler_error:
  assumes "getHandler (a_type a) = Some handler"
    and "resolveVariables host (a_config a) ctx = Inr config"
    and "handler config w = (Inl (ErrorObj m), w1)"
  shows "fails host getHandler a (ctx, w) (ErrorObj m) w1"
    and "logged_message host (ErrorObj m) = Inr (JStr m)"
proof -
  from assms(1,3) have "executeAction host getHandler (a_type a) config w = (Inl (ErrorObj m), w1)"
    by (simp add: executeAction_def)
  with assms(2) show "fails host getHandler a (ctx, w) (ErrorObj m) w1"
    by (rule fails.dispatch)
  show "logged_message host (ErrorObj m) = Inr (JStr m)"
    by (simp add: logged_message_def message_of_def)
qed

subsection \<open>\<^verbatim>\<open>execute\<close> and its caller\<close>




subsection \<open>Empty workflows\<close>

text \<open>
  C4, as stated: for every workflow without actions, \<^verbatim>\<open>execute\<close> returns success with
  an empty log and the seeded context. For the workflow
  \<^verbatim>\<open>{id: "w1", name: {toString: 1}, actions: []}\<close> it returns nothing: line 26 of the
  source converts the name to text for the log, outside the \<^verbatim>\<open>try\<close> block, and
  that raises a TypeError to the caller.
\<close>

theorem execute_empty_actions_counterexample:
  "execute example_host (\<lambda>t. None)
     \<lparr>uuidv4 = ''run-1'', started_at = ''t0'', finished_at = ''t1''\<rparr>
     \<lparr>w_id = JStr ''w1'', w_name = JObj [(''toString'', JNum 1)], w_actions = []\<rparr>
     JUndefined \<lparr>journal = [], lastID = 0\<rparr> () = Inl NoPrimitiveValue"
  by (simp add: execute_def)

text \<open>
  C4, amended: for every workflow without actions whose name has a string conversion
  (every string, number and boolean has one, and so have \<open>null\<close>, \<open>undefined\<close> and
  every array or object without an entry \<^verbatim>\<open>toString\<close> inside), \<^verbatim>\<open>execute\<close> returns
  success with an empty log and a context of exactly the four seeded keys: \<open>trigger\<close>
  (the trigger input, an empty object when the caller gives none), \<open>workflow\<close> (the id
  and the name of the workflow), \<open>now\<close> (the time at the start of the run) and
  \<open>executionId\<close> (the generated identifier). The run is persisted as created and then
  as completed.
\<close>

theorem execute_empty_actions:
  assumes "w_actions workflow = []" and "text_of host (w_name workflow) = Inr name_text"
  shows "execute host gh env workflow triggerData db w =
           Inr (\<lparr>success = True, execution_id = uuidv4 env, r_log = [],
                 r_context =
                   Some \<lparr>entries =
                           [(''trigger'', if triggerData = JUndefined then JObj [] else triggerData),
                            (''workflow'', JObj [(''id'', w_id workflow), (''name'', w_name workflow)]),
                            (''now'', JStr (started_at env)),
                            (''executionId'', JStr (uuidv4 env))],
                         proto = Standard\<rparr>,
                 r_error = None\<rparr>,
                \<lparr>journal = journal db @
                   [CreateExecution (uuidv4 env) (w_id workflow) ''running''
                      (if triggerData = JUndefined then JObj [] else triggerData),
                    UpdateExecution (uuidv4 env) ''completed'' [] None (finished_at env)],
                 lastID = lastID db\<rparr>,
                w)"
  using assms
  by (simp add: execute_def start_run_def seed_context_def default_trigger_def Let_def
      createExecution_def updateExecution_def)

text \<open>
  The amended statement at the workflow \<^verbatim>\<open>{id: "w1", name: "Flow", actions: []}\<close>,
  run without trigger input.
\<close>

theorem execute_empty_actions_witness:
  "text_of example_host (JStr ''Flow'') = Inr ''Flow'' \<and>
   execute example_host example_handlers example_env
     \<lparr>w_id = JStr ''w1'', w_name = JStr ''Flow'', w_actions = []\<rparr> JUndefined empty_database 0 =
   Inr (\<lparr>success = True, execution_id = ''run-1'', r_log = [],
         r_context =
           Some \<lparr>entries =
                   [(''trigger'', JObj []),
                    (''workflow'', JObj [(''id'', JStr ''w1''), (''name'', JStr ''Flow'')]),
                    (''now'', JStr ''t0''),
                    (''executionId'', JStr ''run-1'')],
                 proto = Standard\<rparr>,
         r_error = None\<rparr>,
        \<lparr>journal =
           [CreateExecution ''run-1'' (JStr ''w1'') ''running'' (JObj []),
            UpdateExecution ''run-1'' ''completed'' [] None ''t1''],
         lastID = 0\<rparr>,
        0)"
  using execute_empty_actions [of "\<lparr>w_id = JStr ''w1'', w_name = JStr ''Flow'', w_actions = []\<rparr>"
      example_host "''Flow''" example_handlers example_env JUndefined empty_database 0]
  by (simp add: example_env_def empty_database_def)

subsection \<open>Fail-fast\<close>

text \<open>
  C1: when the action at position \<open>k\<close> is the first whose dispatch fails, the step
  record of that action is updated to failed with the error message, a failed entry is
  appended to the log behind the \<open>k\<close> completed entries, and no later action runs or
  gets a step record. The code does so whenever the message of what was thrown can be
  read and printed (\<open>execute_aborts\<close>; an \<^verbatim>\<open>Error\<close>, and so the engine's own
  \<^verbatim>\<open>Unknown action type:\<close> followed by the type, always can: \<open>fails_unknown_type\<close>,
  \<open>fails_handler_error\<close>). It does not when a handler throws \<open>undefined\<close> or \<open>null\<close>,
  as a promise rejected without a reason does. The inner \<^verbatim>\<open>catch\<close> begins with
  \<^verbatim>\<open>error.message\<close> (line 96), which raises a TypeError before lines 99 to 108 are
  reached: the step record of the failing action stays \<^verbatim>\<open>running\<close>, the log gets no
  failed entry, and the run is persisted as failed with the message of the TypeError.
  Here the second of three actions rejects with \<open>undefined\<close>; the third does not run.
\<close>

theorem execute_handler_rejection_unrecorded:
  "execute example_host example_handlers example_env
     \<lparr>w_id = JStr ''w1'', w_name = JStr ''Flow'',
      w_actions =
        [\<lparr>a_id = JStr ''s1'', a_type = JStr ''echo'',
          a_config = JObj [(''to'', JStr ''{{trigger.user}}'')], a_output = JStr ''first''\<rparr>,
         \<lparr>a_id = JStr ''s2'', a_type = JStr ''reject'',
          a_config = JObj [], a_output = JUndefined\<rparr>,
         \<lparr>a_id = JStr ''s3'', a_type = JStr ''echo'',
          a_config = JObj [], a_output = JUndefined\<rparr>]\<rparr>
     (JObj [(''user'', JStr ''ann'')]) empty_database 0 =
   Inr (\<lparr>success = False, execution_id = ''run-1'',
         r_log =
           [\<lparr>le_step = JStr ''s1'', le_status = ''completed'',
             le_output = Some (JObj [(''to'', JStr ''ann'')]), le_error = None\<rparr>],
         r_context = None,
         r_error =
           Some (JStr (''Cannot read properties of undefined (reading '' @ [CHR 0x27] @
                       ''message'' @ [CHR 0x27] @ '')''))\<rparr>,
        \<lparr>journal =
           [CreateExecution ''run-1'' (JStr ''w1'') ''running'' (JObj [(''user'', JStr ''ann'')]),
            CreateExecutionStep ''run-1'' (JStr ''s1'') (JStr ''echo'') ''running''
              (JObj [(''to'', JStr ''{{trigger.user}}'')]),
            UpdateExecutionStep 1 ''completed'' (Some (JObj [(''to'', JStr ''ann'')])) None,
            CreateExecutionStep ''run-1'' (JStr ''s2'') (JStr ''reject'') ''running'' (JObj []),
            UpdateExecution ''run-1'' ''failed''
              [\<lparr>le_step = JStr ''s1'', le_status = ''completed'',
                le_output = Some (JObj [(''to'', JStr ''ann'')]), le_error = None\<rparr>]
              (Some (JStr (''Cannot read properties of undefined (reading '' @ [CHR 0x27] @
                           ''message'' @ [CHR 0x27] @ '')'')))
              ''t1''],
         lastID = 2\<rparr>,
        2)"
  by code_simp

subsection \<open>The context after a successful action\<close>

lemma store_result_frame:
  assumes "truthy (a_output a)" and "text_of host (a_output a) = Inr key"
    and "key \<noteq> ''__proto__''"
  shows "\<exists>ctx'. store_result host a ctx result = Inr ctx' \<and>
           ctx_read host ctx' key = Data result \<and>
           (\<forall>k. k \<noteq> key \<longrightarrow> ctx_read host ctx' k = ctx_read host ctx k)"
  using assms
  by (simp add: store_result_def ctx_set_def sets_prototype_def ctx_read_def AList.update_conv'
      split: option.splits)

lemma store_result_no_output:
  "\<not> truthy (a_output a) \<Longrightarrow> store_result host a ctx result = Inr ctx"
  by (simp add: store_result_def)

text \<open>
  C5: a successful action with an output key writes its result into the context under
  exactly that key and changes no other key; one without an output key leaves the
  context as it was. The code does so for every output key but one
  (\<open>store_result_frame\<close>, \<open>store_result_no_output\<close>). The context is an object
  literal, and for the output key \<^verbatim>\<open>__proto__\<close> the assignment of line 78 runs the
  accessor that every object inherits. With the result \<^verbatim>\<open>{admin: true}\<close> the context
  gets no entry at all, the result becomes the prototype of the context, and the key
  \<^verbatim>\<open>admin\<close>, which the context did not have, now reads \<open>true\<close>, so that
  \<^verbatim>\<open>{{admin}}\<close> is substituted in every later action. With a result that is not an
  object (here the string \<^verbatim>\<open>text\<close>) the assignment does nothing, and the result is
  not in the context under any key.
\<close>

theorem run_action_prototype_key:
  "run_action example_host example_handlers ''run-1''
     \<lparr>a_id = JStr ''s1'', a_type = JStr ''echo'', a_config = JObj [(''admin'', JBool True)],
      a_output = JStr ''__proto__''\<rparr>
     \<lparr>rs_db = empty_database,
      rs_context = \<lparr>entries = [(''trigger'', JObj [])], proto = Standard\<rparr>,
      rs_log = [], rs_world = 0\<rparr> =
   (None,
    \<lparr>rs_db =
       \<lparr>journal =
          [CreateExecutionStep ''run-1'' (JStr ''s1'') (JStr ''echo'') ''running''
             (JObj [(''admin'', JBool True)]),
           UpdateExecutionStep 1 ''completed'' (Some (JObj [(''admin'', JBool True)])) None],
        lastID = 1\<rparr>,
     rs_context =
       \<lparr>entries = [(''trigger'', JObj [])], proto = Replaced (JObj [(''admin'', JBool True)])\<rparr>,
     rs_log =
       [\<lparr>le_step = JStr ''s1'', le_status = ''completed'',
         le_output = Some (JObj [(''admin'', JBool True)]), le_error = None\<rparr>],
     rs_world = 1\<rparr>) \<and>
   ctx_read example_host \<lparr>entries = [(''trigger'', JObj [])], proto = Standard\<rparr> ''admin'' =
     Data JUndefined \<and>
   ctx_read example_host
     \<lparr>entries = [(''trigger'', JObj [])], proto = Replaced (JObj [(''admin'', JBool True)])\<rparr>
     ''admin'' = Data (JBool True) \<and>
   substituteString example_host ''{{admin}}''
     \<lparr>entries = [(''trigger'', JObj [])], proto = Replaced (JObj [(''admin'', JBool True)])\<rparr> =
     Inr ''true'' \<and>
   rs_context (snd (run_action example_host example_handlers ''run-1''
     \<lparr>a_id = JStr ''s2'', a_type = JStr ''echo'', a_config = JStr ''text'',
      a_output = JStr ''__proto__''\<rparr>
     \<lparr>rs_db = empty_database,
      rs_context = \<lparr>entries = [(''trigger'', JObj [])], proto = Standard\<rparr>,
      rs_log = [], rs_world = 0\<rparr>)) =
     \<lparr>entries = [(''trigger'', JObj [])], proto = Standard\<rparr>"
  by code_simp

end
